theory Spec2Isabelle
  imports Complex_Main "HOL-Library.Word"
begin

section \<open>The live conversation component (src/components/LiveConversation.tsx)\<close>

text \<open>
  The component is modelled as a record of its React state and refs, and every callback
  as a function from that record to the updated record together with the list of calls
  the callback makes on objects outside the component, in program order.

  \<^item> Objects of the browser and of the SDK (session promise, audio contexts, audio nodes)
    are identified by numbers; a media stream is the list of its tracks.
  \<^item> Times are the seconds of \<open>AudioContext.currentTime\<close> and \<open>AudioBuffer.duration\<close>:
    doubles, taken as the real numbers they denote. The one addition of times is the
    rounded addition of doubles (\<open>double_add\<close> below); \<open>Math.max\<close> is exact.
  \<^item> Results of the environment (the outcome of \<open>getUserMedia\<close>, of opening the session,
    the clock, the helpers \<open>decodeAudioData\<close> and \<open>encode\<close> of \<open>utils/helpers\<close>)
    are parameters of the callbacks.
\<close>

subsection \<open>Data\<close>

text \<open>The element type of \<open>transcriptions\<close> and of \<open>currentTranscription\<close>.\<close>

record turn =
  user :: string
  model :: string

datatype mediaStream = MediaStream (getTracks: "nat list")

text \<open>A scheduled \<open>AudioBufferSourceNode\<close>: its context, start time and buffer duration.\<close>

record bufferSource =
  src_context :: nat
  src_when :: real
  src_duration :: real

text \<open>A thrown value, read only through \<open>err.message\<close>.\<close>

datatype js_error = JsError (message: "string option")

text \<open>The outbound \<open>Blob\<close> of \<open>sendRealtimeInput\<close>.\<close>

record pcmBlob =
  blob_data :: string
  mimeType :: string

text \<open>
  Calls that leave the component: methods of the session, of audio nodes and of tracks,
  the setter of the active flag, and the rejection of an async callback's promise.
\<close>

datatype effect =
    SetIsSessionActive bool
  | SessionClose nat
  | SendRealtimeInput nat pcmBlob
  | ScriptProcessorDisconnect nat
  | MediaStreamSourceDisconnect nat
  | TrackStop nat
  | NodeConnect nat nat
  | BufferSourceStart nat real real
  | PromiseRejected

record state =
  isSessionActive :: bool
  transcriptions :: "turn list"
  currentTranscription :: turn
  error :: "string option"
  sessionPromiseRef :: "nat option"
  inputAudioContextRef :: "nat option"
  outputAudioContextRef :: "nat option"
  mediaStreamRef :: "mediaStream option"
  scriptProcessorRef :: "nat option"
  mediaStreamSourceRef :: "nat option"
  nextStartTimeRef :: real
  audioSourcesRef :: "bufferSource list"
  captured_currentTranscription :: turn

text \<open>
  The last field is not a hook: it is the value of \<open>currentTranscription\<close> in the render
  whose \<open>startSession\<close> was invoked. The session callbacks are created inside that
  invocation and close over this constant, not over the state.
\<close>

definition empty_turn :: turn where
  "empty_turn = \<lparr>user = '''', model = ''''\<rparr>"

text \<open>The values of \<open>useState\<close> and \<open>useRef\<close> when the component is mounted.\<close>

definition initial_state :: state where
  "initial_state =
     \<lparr>isSessionActive = False, transcriptions = [], currentTranscription = empty_turn,
      error = None, sessionPromiseRef = None, inputAudioContextRef = None,
      outputAudioContextRef = None, mediaStreamRef = None, scriptProcessorRef = None,
      mediaStreamSourceRef = None, nextStartTimeRef = 0, audioSourcesRef = [],
      captured_currentTranscription = empty_turn\<rparr>"

subsection \<open>stopSession\<close>

text \<open>
  Four guarded steps, then the flag. \<open>session.close()\<close> runs when the promise
  resolves; the call recorded is the request.
\<close>

definition stop_session_step :: "state \<Rightarrow> state \<times> effect list" where
  "stop_session_step s =
     (case sessionPromiseRef s of
        Some p \<Rightarrow> (s\<lparr>sessionPromiseRef := None\<rparr>, [SessionClose p])
      | None \<Rightarrow> (s, []))"

definition stop_processor_step :: "state \<Rightarrow> state \<times> effect list" where
  "stop_processor_step s =
     (case scriptProcessorRef s of
        Some n \<Rightarrow> (s\<lparr>scriptProcessorRef := None\<rparr>, [ScriptProcessorDisconnect n])
      | None \<Rightarrow> (s, []))"

definition stop_source_step :: "state \<Rightarrow> state \<times> effect list" where
  "stop_source_step s =
     (case mediaStreamSourceRef s of
        Some n \<Rightarrow> (s\<lparr>mediaStreamSourceRef := None\<rparr>, [MediaStreamSourceDisconnect n])
      | None \<Rightarrow> (s, []))"

definition stop_stream_step :: "state \<Rightarrow> state \<times> effect list" where
  "stop_stream_step s =
     (case mediaStreamRef s of
        Some ms \<Rightarrow> (s\<lparr>mediaStreamRef := None\<rparr>, map TrackStop (getTracks ms))
      | None \<Rightarrow> (s, []))"

definition stopSession :: "state \<Rightarrow> state \<times> effect list" where
  "stopSession s0 =
     (let (s1, e1) = stop_session_step s0;
          (s2, e2) = stop_processor_step s1;
          (s3, e3) = stop_source_step s2;
          (s4, e4) = stop_stream_step s3
      in (s4\<lparr>isSessionActive := False\<rparr>, e1 @ e2 @ e3 @ e4 @ [SetIsSessionActive False]))"

subsection \<open>startSession\<close>

datatype mic_outcome = MicDenied js_error | MicGranted mediaStream

text \<open>
  What \<open>new GoogleGenAI(...)\<close> followed by \<open>ai.live.connect(...)\<close> does inside the
  \<open>try\<close>: it throws, or it returns the session promise. The promise is not awaited, so
  its later rejection does not reach the \<open>catch\<close>.
\<close>

datatype connect_outcome = ConnectThrows js_error | ConnectReturns nat

text \<open>\<open>String.prototype.includes\<close>.\<close>

fun includes_str :: "string \<Rightarrow> string \<Rightarrow> bool" where
  "includes_str [] sub = (sub = [])"
| "includes_str (c # cs) sub = (take (length sub) (c # cs) = sub \<or> includes_str cs sub)"

text \<open>The statements before the \<open>await\<close> of \<open>getUserMedia\<close>.\<close>

definition startSession_begin :: "state \<Rightarrow> state \<times> effect list" where
  "startSession_begin s =
     (s\<lparr>captured_currentTranscription := currentTranscription s,
        error := None,
        isSessionActive := True,
        transcriptions := [],
        currentTranscription := empty_turn\<rparr>,
      [SetIsSessionActive True])"

definition start_catch :: "js_error \<Rightarrow> state \<Rightarrow> state \<times> effect list" where
  "start_catch err s =
     (let msg =
        (if (case message err of None \<Rightarrow> False
             | Some m \<Rightarrow> includes_str m ''Requested entity was not found'')
         then ''API Key error or model access issue. Please check your API key and that you have access to the Live API model.''
         else ''Could not access microphone or start session. Please check permissions.'')
      in (s\<lparr>error := Some msg, isSessionActive := False\<rparr>, [SetIsSessionActive False]))"

text \<open>The rest of the \<open>try\<close> block, once \<open>getUserMedia\<close> has settled.\<close>

definition startSession_resume ::
  "mic_outcome \<Rightarrow> connect_outcome \<Rightarrow> state \<Rightarrow> state \<times> effect list" where
  "startSession_resume mic conn s =
     (case mic of
        MicDenied err \<Rightarrow> start_catch err s
      | MicGranted stream \<Rightarrow>
          (let s1 = s\<lparr>mediaStreamRef := Some stream\<rparr>
           in case conn of
                ConnectThrows err \<Rightarrow> start_catch err s1
              | ConnectReturns p \<Rightarrow> (s1\<lparr>sessionPromiseRef := Some p\<rparr>, [])))"

definition startSession ::
  "mic_outcome \<Rightarrow> connect_outcome \<Rightarrow> state \<Rightarrow> state \<times> effect list" where
  "startSession mic conn s =
     (let (s1, e1) = startSession_begin s;
          (s2, e2) = startSession_resume mic conn s1
      in (s2, e1 @ e2))"

subsection \<open>onopen and the outbound encoder\<close>

text \<open>
  The four numbers are the objects the browser creates: the input and output contexts,
  the media stream source and the script processor.
\<close>

definition onopen :: "nat \<Rightarrow> nat \<Rightarrow> nat \<Rightarrow> nat \<Rightarrow> state \<Rightarrow> state \<times> effect list" where
  "onopen ictx octx source scriptProcessor s =
     (case mediaStreamRef s of
        None \<Rightarrow> (s, [])
      | Some ms \<Rightarrow>
          (s\<lparr>inputAudioContextRef := Some ictx,
             outputAudioContextRef := Some octx,
             mediaStreamSourceRef := Some source,
             scriptProcessorRef := Some scriptProcessor\<rparr>,
           [NodeConnect source scriptProcessor, NodeConnect scriptProcessor ictx]))"

text \<open>
  A sample of the \<open>Float32Array\<close>. The product with \<open>32768 = 2^15\<close> of a finite
  single-precision value is exact in double precision, so the real product is the
  program's product.
\<close>

datatype float = Finite real | PosInfinity | NegInfinity | NaN

fun times_32768 :: "float \<Rightarrow> float" where
  "times_32768 (Finite r) = Finite (r * 32768)"
| "times_32768 PosInfinity = PosInfinity"
| "times_32768 NegInfinity = NegInfinity"
| "times_32768 NaN = NaN"

definition js_trunc :: "real \<Rightarrow> int" where
  "js_trunc r = (if r < 0 then \<lceil>r\<rceil> else \<lfloor>r\<rfloor>)"

text \<open>
  The store into an \<open>Int16Array\<close> element (ToInt16): not a number and the infinities
  give 0, a finite value is truncated towards zero and reduced modulo \<open>2^16\<close>.
\<close>

fun to_int16 :: "float \<Rightarrow> 16 word" where
  "to_int16 (Finite r) = word_of_int (js_trunc r)"
| "to_int16 PosInfinity = 0"
| "to_int16 NegInfinity = 0"
| "to_int16 NaN = 0"

definition encode_sample :: "float \<Rightarrow> 16 word" where
  "encode_sample x = to_int16 (times_32768 x)"

text \<open>The \<open>for\<close> loop over the input buffer, writing into the zero-filled \<open>int16\<close>.\<close>

function encode_loop :: "nat \<Rightarrow> nat \<Rightarrow> float list \<Rightarrow> 16 word list \<Rightarrow> 16 word list" where
  "encode_loop i l inputData int16 =
     (if i < l then encode_loop (i + 1) l inputData (int16[i := encode_sample (inputData ! i)])
      else int16)"
  by pat_completeness auto
termination
  by (relation "measure (\<lambda>(i, l, inputData, int16). l - i)") auto

declare encode_loop.simps [simp del]

definition pcm_int16 :: "float list \<Rightarrow> 16 word list" where
  "pcm_int16 inputData =
     (let l = length inputData in encode_loop 0 l inputData (replicate l 0))"

text \<open>\<open>new Uint8Array(int16.buffer)\<close> on a little-endian platform.\<close>

definition int16_bytes :: "16 word list \<Rightarrow> 8 word list" where
  "int16_bytes ws = concat (map (\<lambda>w. [ucast w, ucast (drop_bit 8 w)]) ws)"

definition onaudioprocess ::
  "(8 word list \<Rightarrow> string) \<Rightarrow> float list \<Rightarrow> state \<Rightarrow> state \<times> effect list" where
  "onaudioprocess encode inputData s =
     (let int16 = pcm_int16 inputData;
          blob = \<lparr>blob_data = encode (int16_bytes int16), mimeType = ''audio/pcm;rate=16000''\<rparr>
      in case sessionPromiseRef s of
           None \<Rightarrow> (s, [])
         | Some p \<Rightarrow> (s, [SendRealtimeInput p blob]))"

subsection \<open>Addition of doubles\<close>

text \<open>
  \<open>nextStartTimeRef.current += audioBuffer.duration\<close> adds two doubles: the exact sum
  is rounded to the nearest double, ties to the even mantissa. A double in the normal
  range is an integer mantissa between \<open>2^52\<close> and \<open>2^53\<close> times a power of two;
  \<open>round_mantissa\<close> scales a positive real into that range, rounds it to an integer
  and scales back. The exponent is not bounded here: overflow and subnormal numbers,
  beyond \<open>10^308\<close> and below \<open>10^-308\<close> seconds, are outside the model.
\<close>

definition round_ties_even :: "real \<Rightarrow> int" where
  "round_ties_even x =
     (let f = \<lfloor>x\<rfloor>; r = x - of_int f
      in if r < 1 / 2 then f else if 1 / 2 < r then f + 1 else if even f then f else f + 1)"

function round_mantissa :: "real \<Rightarrow> real" where
  "round_mantissa x =
     (if x \<le> 0 then 0
      else if x < 2 ^ 52 then round_mantissa (2 * x) / 2
      else if 2 ^ 53 \<le> x then 2 * round_mantissa (x / 2)
      else of_int (round_ties_even x))"
  by pat_completeness auto
termination
proof (relation "measure (\<lambda>x. nat \<bar>\<lfloor>log 2 x\<rfloor> - 52\<bar>)")
  show "wf (measure (\<lambda>x. nat \<bar>\<lfloor>log 2 x\<rfloor> - 52\<bar>))" by simp
next
  fix x :: real
  assume pos: "\<not> x \<le> 0" and small: "x < 2 ^ 52"
  then have "log 2 x < 52"
    by (simp add: log_less_iff powr_realpow [symmetric])
  then have "\<lfloor>log 2 x\<rfloor> < 52" by (simp add: floor_less_iff)
  moreover have "\<lfloor>log 2 (2 * x)\<rfloor> = \<lfloor>log 2 x\<rfloor> + 1"
    using pos by (simp add: log_mult)
  ultimately show "(2 * x, x) \<in> measure (\<lambda>x. nat \<bar>\<lfloor>log 2 x\<rfloor> - 52\<bar>)"
    by simp
next
  fix x :: real
  assume pos: "\<not> x \<le> 0" and large: "2 ^ 53 \<le> x"
  then have "53 \<le> log 2 x"
    by (simp add: le_log_iff powr_realpow [symmetric])
  then have "53 \<le> \<lfloor>log 2 x\<rfloor>" by (simp add: le_floor_iff)
  moreover have "\<lfloor>log 2 (x / 2)\<rfloor> = \<lfloor>log 2 x\<rfloor> - 1"
    using pos by (simp add: log_divide)
  ultimately show "(x / 2, x) \<in> measure (\<lambda>x. nat \<bar>\<lfloor>log 2 x\<rfloor> - 52\<bar>)"
    by simp
qed

declare round_mantissa.simps [simp del]

definition round_double :: "real \<Rightarrow> real" where
  "round_double x = (if x < 0 then - round_mantissa (- x) else round_mantissa x)"

definition double_add :: "real \<Rightarrow> real \<Rightarrow> real" where
  "double_add x y = round_double (x + y)"

subsection \<open>onmessage\<close>

text \<open>The parts of a \<open>LiveServerMessage\<close> the callback reads; every field is optional.\<close>

datatype transcription = Transcription (text_field: "string option")

datatype inline_blob = InlineData (data: "string option")

datatype part = Part (inlineData: "inline_blob option")

datatype content = Content (parts: "part list option")

record liveServerContent =
  inputTranscription :: "transcription option"
  outputTranscription :: "transcription option"
  turnComplete :: "bool option"
  modelTurn :: "content option"

datatype liveServerMessage = LiveServerMessage (serverContent: "liveServerContent option")

text \<open>String concatenation with a value that may be \<open>undefined\<close>.\<close>

definition js_concat :: "string \<Rightarrow> string option \<Rightarrow> string" where
  "js_concat s v = s @ (case v of None \<Rightarrow> ''undefined'' | Some t \<Rightarrow> t)"

text \<open>
  The three transcript statements. The updater functions read the previous state; the
  turn pushed on \<open>turnComplete\<close> is the constant the callback closed over.
\<close>

definition onmessage_transcript :: "liveServerMessage \<Rightarrow> state \<Rightarrow> state" where
  "onmessage_transcript msg s =
     (let sc = serverContent msg;
          s1 = (case Option.bind sc inputTranscription of
                  None \<Rightarrow> s
                | Some tr \<Rightarrow>
                    s\<lparr>currentTranscription := (currentTranscription s)
                         \<lparr>user := js_concat (user (currentTranscription s)) (text_field tr)\<rparr>\<rparr>);
          s2 = (case Option.bind sc outputTranscription of
                  None \<Rightarrow> s1
                | Some tr \<Rightarrow>
                    s1\<lparr>currentTranscription := (currentTranscription s1)
                         \<lparr>model := js_concat (model (currentTranscription s1)) (text_field tr)\<rparr>\<rparr>)
      in if Option.bind sc turnComplete = Some True
         then s2\<lparr>transcriptions := transcriptions s2 @ [captured_currentTranscription s2],
                 currentTranscription := empty_turn\<rparr>
         else s2)"

datatype type_error = TypeError

text \<open>
  \<open>message.serverContent?.modelTurn?.parts[0]?.inlineData?.data\<close>: indexing
  \<open>parts\<close> is not guarded, so a model turn without parts throws.
\<close>

definition base64Audio :: "liveServerMessage \<Rightarrow> type_error + string option" where
  "base64Audio msg =
     (case serverContent msg of
        None \<Rightarrow> Inr None
      | Some sc \<Rightarrow>
          (case modelTurn sc of
             None \<Rightarrow> Inr None
           | Some c \<Rightarrow>
               (case parts c of
                  None \<Rightarrow> Inl TypeError
                | Some ps \<Rightarrow>
                    (case ps of
                       [] \<Rightarrow> Inr None
                     | p # _ \<Rightarrow>
                         (case inlineData p of
                            None \<Rightarrow> Inr None
                          | Some b \<Rightarrow> Inr (data b))))))"

text \<open>
  Up to the \<open>await\<close>: the guard (a non-empty string and an output context) and the
  alignment of the cursor with the clock \<open>now = outputCtx.currentTime\<close>. The third
  component is the decode that is awaited, if any.
\<close>

definition onmessage_align ::
  "real \<Rightarrow> liveServerMessage \<Rightarrow> state \<Rightarrow> state \<times> effect list \<times> (nat \<times> string) option" where
  "onmessage_align now msg s =
     (case base64Audio msg of
        Inl _ \<Rightarrow> (s, [PromiseRejected], None)
      | Inr a \<Rightarrow>
          (case (a, outputAudioContextRef s) of
             (Some b, Some outputCtx) \<Rightarrow>
               if b \<noteq> []
               then (s\<lparr>nextStartTimeRef := max (nextStartTimeRef s) now\<rparr>, [],
                     Some (outputCtx, b))
               else (s, [], None)
           | _ \<Rightarrow> (s, [], None)))"

text \<open>After the \<open>await\<close>, with the duration of the decoded buffer.\<close>

definition onmessage_schedule :: "nat \<Rightarrow> real \<Rightarrow> state \<Rightarrow> state \<times> effect list" where
  "onmessage_schedule outputCtx duration s =
     (let t = nextStartTimeRef s;
          source = \<lparr>src_context = outputCtx, src_when = t, src_duration = duration\<rparr>
      in (s\<lparr>nextStartTimeRef := double_add t duration,
            audioSourcesRef := audioSourcesRef s @ [source]\<rparr>,
          [BufferSourceStart outputCtx t duration]))"

text \<open>
  The whole callback, the decode settling before the next event is handled.
  \<open>decodeAudioData b\<close> is the duration of the buffer that
  \<open>decodeAudioData(decode(b), outputCtx, 24000, 1)\<close> resolves to, or \<open>None\<close> when
  one of the two helpers throws.
\<close>

definition onmessage ::
  "(string \<Rightarrow> real option) \<Rightarrow> real \<Rightarrow> liveServerMessage \<Rightarrow> state \<Rightarrow> state \<times> effect list" where
  "onmessage decodeAudioData now msg s =
     (let s1 = onmessage_transcript msg s;
          (s2, e2, pending) = onmessage_align now msg s1
      in case pending of
           None \<Rightarrow> (s2, e2)
         | Some (outputCtx, b) \<Rightarrow>
             (case decodeAudioData b of
                None \<Rightarrow> (s2, e2 @ [PromiseRejected])
              | Some duration \<Rightarrow>
                  (let (s3, e3) = onmessage_schedule outputCtx duration s2
                   in (s3, e2 @ e3))))"

text \<open>The \<open>ended\<close> listener of a scheduled source.\<close>

definition source_ended :: "bufferSource \<Rightarrow> state \<Rightarrow> state \<times> effect list" where
  "source_ended source s = (s\<lparr>audioSourcesRef := remove1 source (audioSourcesRef s)\<rparr>, [])"

subsection \<open>onerror and onclose\<close>

definition onerror :: "string \<Rightarrow> state \<Rightarrow> state \<times> effect list" where
  "onerror e_message s =
     stopSession (s\<lparr>error := Some (''Session error: '' @ e_message @ ''. Please try again.'')\<rparr>)"

definition onclose :: "state \<Rightarrow> state \<times> effect list" where
  "onclose s = (s\<lparr>isSessionActive := False\<rparr>, [SetIsSessionActive False])"

subsection \<open>Runs of the component\<close>

text \<open>
  The events the component reacts to. The session callbacks are those of the session
  started last. \<open>EvStart\<close> is a start whose \<open>getUserMedia\<close> settles before any other
  event; \<open>EvStartBegin\<close> and \<open>EvStartResume\<close> are its two halves.
\<close>

datatype event =
    EvStart mic_outcome connect_outcome
  | EvStartBegin
  | EvStartResume mic_outcome connect_outcome
  | EvStop
  | EvOpen nat nat nat nat
  | EvMessage real liveServerMessage
  | EvError string
  | EvClose
  | EvAudioProcess "float list"
  | EvEnded bufferSource

fun handle ::
  "(string \<Rightarrow> real option) \<Rightarrow> (8 word list \<Rightarrow> string) \<Rightarrow> event \<Rightarrow> state \<Rightarrow> state \<times> effect list" where
  "handle dec enc (EvStart mic conn) s = startSession mic conn s"
| "handle dec enc EvStartBegin s = startSession_begin s"
| "handle dec enc (EvStartResume mic conn) s = startSession_resume mic conn s"
| "handle dec enc EvStop s = stopSession s"
| "handle dec enc (EvOpen ictx octx source proc) s = onopen ictx octx source proc s"
| "handle dec enc (EvMessage now msg) s = onmessage dec now msg s"
| "handle dec enc (EvError m) s = onerror m s"
| "handle dec enc EvClose s = onclose s"
| "handle dec enc (EvAudioProcess inputData) s = onaudioprocess enc inputData s"
| "handle dec enc (EvEnded source) s = source_ended source s"

fun run ::
  "(string \<Rightarrow> real option) \<Rightarrow> (8 word list \<Rightarrow> string) \<Rightarrow> event list \<Rightarrow> state \<Rightarrow> state \<times> effect list" where
  "run dec enc [] s = (s, [])"
| "run dec enc (ev # evs) s =
     (let (s1, e1) = handle dec enc ev s;
          (s2, e2) = run dec enc evs s1
      in (s2, e1 @ e2))"

text \<open>The sources started by a list of calls, as pairs of start time and duration.\<close>

fun scheduled :: "effect list \<Rightarrow> (real \<times> real) list" where
  "scheduled [] = []"
| "scheduled (BufferSourceStart c t d # es) = (t, d) # scheduled es"
| "scheduled (_ # es) = scheduled es"

subsection \<open>Auxiliary definitions for the statements\<close>

text \<open>The position of a call in the teardown sequence of \<open>stopSession\<close>.\<close>

fun teardown_rank :: "effect \<Rightarrow> nat" where
  "teardown_rank (SessionClose p) = 0"
| "teardown_rank (ScriptProcessorDisconnect n) = 1"
| "teardown_rank (MediaStreamSourceDisconnect n) = 2"
| "teardown_rank (TrackStop t) = 3"
| "teardown_rank (SetIsSessionActive b) = 4"
| "teardown_rank _ = 5"

text \<open>A session that has been started and opened, with a microphone stream of two tracks.\<close>

definition open_state :: state where
  "open_state =
     fst (run (\<lambda>b. Some 1) (\<lambda>bs. [])
            [EvStart (MicGranted (MediaStream [1, 2])) (ConnectReturns 7), EvOpen 10 11 12 13]
            initial_state)"

text \<open>The calls \<open>stopSession\<close> may make.\<close>

fun is_teardown_call :: "effect \<Rightarrow> bool" where
  "is_teardown_call (SessionClose p) = True"
| "is_teardown_call (ScriptProcessorDisconnect n) = True"
| "is_teardown_call (MediaStreamSourceDisconnect n) = True"
| "is_teardown_call (TrackStop t) = True"
| "is_teardown_call (SetIsSessionActive b) = (\<not> b)"
| "is_teardown_call _ = False"

text \<open>An open session with a finished turn, a turn in progress and a scheduled source.\<close>

definition playing_state :: state where
  "playing_state =
     open_state\<lparr>transcriptions := [\<lparr>user = ''hi'', model = ''hello''\<rparr>],
                currentTranscription := \<lparr>user = ''and'', model = ''''\<rparr>,
                nextStartTimeRef := 3,
                audioSourcesRef := [\<lparr>src_context = 11, src_when = 2, src_duration = 1\<rparr>]\<rparr>"

text \<open>Messages that carry one field each.\<close>

definition no_content :: liveServerContent where
  "no_content =
     \<lparr>inputTranscription = None, outputTranscription = None, turnComplete = None,
      modelTurn = None\<rparr>"

definition user_text_message :: "string \<Rightarrow> liveServerMessage" where
  "user_text_message t =
     LiveServerMessage (Some (no_content\<lparr>inputTranscription := Some (Transcription (Some t))\<rparr>))"

definition model_text_message :: "string \<Rightarrow> liveServerMessage" where
  "model_text_message t =
     LiveServerMessage (Some (no_content\<lparr>outputTranscription := Some (Transcription (Some t))\<rparr>))"

definition turn_complete_message :: liveServerMessage where
  "turn_complete_message = LiveServerMessage (Some (no_content\<lparr>turnComplete := Some True\<rparr>))"

definition audio_message :: "string \<Rightarrow> liveServerMessage" where
  "audio_message b =
     LiveServerMessage
       (Some (no_content\<lparr>modelTurn := Some (Content (Some [Part (Some (InlineData (Some b)))]))\<rparr>))"

text \<open>A decoder for the examples: the payload \<open>''a''\<close> is one second of audio.\<close>

definition one_second :: "string \<Rightarrow> real option" where
  "one_second b = (if b = ''a'' then Some 1 else None)"

definition no_encode :: "8 word list \<Rightarrow> string" where
  "no_encode bs = []"

text \<open>
  Every source of a schedule ends before the next one starts, the end being the sum the
  code computes.
\<close>

fun no_overlap :: "(real \<times> real) list \<Rightarrow> bool" where
  "no_overlap [] = True"
| "no_overlap [x] = True"
| "no_overlap (x # y # r) = (double_add (fst x) (snd x) \<le> fst y \<and> no_overlap (y # r))"

text \<open>The guard of the audio branch: a payload that is not empty and an output context.\<close>

definition audio_guard :: "liveServerMessage \<Rightarrow> state \<Rightarrow> bool" where
  "audio_guard msg s =
     (case base64Audio msg of
        Inr (Some b) \<Rightarrow> b \<noteq> [] \<and> outputAudioContextRef s \<noteq> None
      | _ \<Rightarrow> False)"

text \<open>A chunk that arrives when the clock has passed the cursor.\<close>

definition arrives_late :: "real \<Rightarrow> liveServerMessage \<Rightarrow> state \<Rightarrow> bool" where
  "arrives_late now msg s = (audio_guard msg s \<and> nextStartTimeRef s < now)"

text \<open>A run in which no chunk arrives late.\<close>

fun on_time ::
  "(string \<Rightarrow> real option) \<Rightarrow> (8 word list \<Rightarrow> string) \<Rightarrow> event list \<Rightarrow> state \<Rightarrow> bool" where
  "on_time dec enc [] s = True"
| "on_time dec enc (EvMessage now msg # evs) s =
     (\<not> arrives_late now msg s
      \<and> on_time dec enc evs (fst (handle dec enc (EvMessage now msg) s)))"
| "on_time dec enc (ev # evs) s = on_time dec enc evs (fst (handle dec enc ev s))"

text \<open>Two one-second chunks, the second arriving four seconds after the first has ended.\<close>

definition late_chunk_run :: "state \<times> effect list" where
  "late_chunk_run =
     run one_second no_encode
       [EvMessage 0 (audio_message ''a''), EvMessage 5 (audio_message ''a'')] open_state"

text \<open>
  A decoder whose payloads \<open>''b''\<close> and \<open>''c''\<close> are 2400 and 16800 samples at 24 kHz:
  the durations are the doubles nearest to 0.1 and to 0.7.
\<close>

definition tenths :: "string \<Rightarrow> real option" where
  "tenths b =
     (if b = ''b'' then Some (3602879701896397 / 36028797018963968)
      else if b = ''c'' then Some (3152519739159347 / 4503599627370496)
      else None)"

text \<open>Three chunks that arrive together.\<close>

definition rounded_run :: "state \<times> effect list" where
  "rounded_run =
     run tenths no_encode
       [EvMessage 0 (audio_message ''b''), EvMessage 0 (audio_message ''c''),
        EvMessage 0 (audio_message ''b'')] open_state"

text \<open>
  A first session that schedules one second of audio and is stopped, and what follows
  it: the second start, and the first chunk of the second session on its new context.
\<close>

definition first_session :: "event list" where
  "first_session =
     [EvStart (MicGranted (MediaStream [1, 2])) (ConnectReturns 7), EvOpen 10 11 12 13,
      EvMessage 0 (audio_message ''a''), EvStop]"

definition second_session :: "event list" where
  "second_session =
     [EvStart (MicGranted (MediaStream [3])) (ConnectReturns 8), EvOpen 20 21 22 23,
      EvMessage 0 (audio_message ''a'')]"

text \<open>
  A start that is stopped while \<open>getUserMedia\<close> is pending; the permission is granted
  afterwards, the session opens and the processor delivers a buffer.
\<close>

definition early_stop_run :: "state \<times> effect list" where
  "early_stop_run =
     run one_second no_encode
       [EvStartBegin, EvStop,
        EvStartResume (MicGranted (MediaStream [1, 2])) (ConnectReturns 7),
        EvOpen 10 11 12 13, EvAudioProcess [Finite 0]]
       initial_state"

text \<open>An open session closed by the transport, a second start and a stop.\<close>

definition close_restart_stop_run :: "state \<times> effect list" where
  "close_restart_stop_run =
     run one_second no_encode
       [EvClose, EvStart (MicGranted (MediaStream [3])) (ConnectReturns 8), EvStop]
       open_state"

section \<open>Properties\<close>

subsection \<open>stopSession\<close>

lemmas stop_steps = stop_session_step_def stop_processor_step_def stop_source_step_def
  stop_stream_step_def

lemma open_state_eq:
  "open_state =
     \<lparr>isSessionActive = True, transcriptions = [], currentTranscription = empty_turn,
      error = None, sessionPromiseRef = Some 7, inputAudioContextRef = Some 10,
      outputAudioContextRef = Some 11, mediaStreamRef = Some (MediaStream [1, 2]),
      scriptProcessorRef = Some 13, mediaStreamSourceRef = Some 12, nextStartTimeRef = 0,
      audioSourcesRef = [], captured_currentTranscription = empty_turn\<rparr>"
  by (simp add: open_state_def initial_state_def startSession_def startSession_begin_def
      startSession_resume_def onopen_def)

lemma stopSession_state:
  "fst (stopSession s) =
     s\<lparr>sessionPromiseRef := None, scriptProcessorRef := None, mediaStreamSourceRef := None,
       mediaStreamRef := None, isSessionActive := False\<rparr>"
  by (simp add: stopSession_def stop_steps split: option.splits)

lemma stopSession_effects:
  "snd (stopSession s) =
     (case sessionPromiseRef s of None \<Rightarrow> [] | Some p \<Rightarrow> [SessionClose p]) @
     (case scriptProcessorRef s of None \<Rightarrow> [] | Some n \<Rightarrow> [ScriptProcessorDisconnect n]) @
     (case mediaStreamSourceRef s of None \<Rightarrow> [] | Some n \<Rightarrow> [MediaStreamSourceDisconnect n]) @
     (case mediaStreamRef s of None \<Rightarrow> [] | Some ms \<Rightarrow> map TrackStop (getTracks ms)) @
     [SetIsSessionActive False]"
  by (simp add: stopSession_def stop_steps split: option.splits)

lemma stopSession_twice:
  "stopSession (fst (stopSession s)) = (fst (stopSession s), [SetIsSessionActive False])"
  by (simp add: prod_eq_iff stopSession_state stopSession_effects)

lemma sorted_track_stops: "sorted (map (teardown_rank \<circ> TrackStop) ts)"
  by (induction ts) auto

lemma stopSession_sorted: "sorted (map teardown_rank (snd (stopSession s)))"
  by (auto simp: stopSession_effects sorted_append sorted_track_stops split: option.splits)

lemma stopSession_butlast:
  "e \<in> set (butlast (snd (stopSession s))) \<Longrightarrow> teardown_rank e < 4"
  by (auto simp: stopSession_effects butlast_append split: option.splits)

text \<open>
  Claim C8. From every state, the calls of \<open>stopSession\<close> are, in this order: the
  close request on the session (if a session promise is held), the disconnect of the
  script processor (if held), the disconnect of the media stream source (if held), the
  stop of every track of the stream (if held), and last the setter of the active flag
  with \<open>false\<close>. The ranks of the calls never decrease along the list, and every call
  before the last one is a teardown call.
\<close>

theorem stopSession_teardown_order:
  "snd (stopSession s) =
     (case sessionPromiseRef s of None \<Rightarrow> [] | Some p \<Rightarrow> [SessionClose p]) @
     (case scriptProcessorRef s of None \<Rightarrow> [] | Some n \<Rightarrow> [ScriptProcessorDisconnect n]) @
     (case mediaStreamSourceRef s of None \<Rightarrow> [] | Some n \<Rightarrow> [MediaStreamSourceDisconnect n]) @
     (case mediaStreamRef s of None \<Rightarrow> [] | Some ms \<Rightarrow> map TrackStop (getTracks ms)) @
     [SetIsSessionActive False]
   \<and> sorted (map teardown_rank (snd (stopSession s)))
   \<and> last (snd (stopSession s)) = SetIsSessionActive False
   \<and> (\<forall>e \<in> set (butlast (snd (stopSession s))). teardown_rank e < 4)"
  using stopSession_sorted [of s] stopSession_butlast [of _ s]
  by (simp add: stopSession_effects)

theorem stopSession_teardown_order_witness:
  "snd (stopSession open_state) =
     [SessionClose 7, ScriptProcessorDisconnect 13, MediaStreamSourceDisconnect 12,
      TrackStop 1, TrackStop 2, SetIsSessionActive False]
   \<and> TrackStop 2 \<in> set (butlast (snd (stopSession open_state)))
   \<and> teardown_rank (TrackStop 2) < 4"
  using stopSession_teardown_order [of open_state]
  by (simp add: open_state_eq)

text \<open>
  What \<open>stopSession\<close> does hold for every state: it leaves no session promise, no
  stream and no node in the refs, every track of the stream it found has been stopped,
  the session it found has been asked to close, and a second call only calls the setter
  again.
\<close>

lemma stopSession_clears_refs:
  "sessionPromiseRef (fst (stopSession s)) = None
   \<and> mediaStreamRef (fst (stopSession s)) = None
   \<and> scriptProcessorRef (fst (stopSession s)) = None
   \<and> mediaStreamSourceRef (fst (stopSession s)) = None
   \<and> \<not> isSessionActive (fst (stopSession s))
   \<and> (\<forall>ms. mediaStreamRef s = Some ms \<longrightarrow>
         (\<forall>t \<in> set (getTracks ms). TrackStop t \<in> set (snd (stopSession s))))
   \<and> (\<forall>p. sessionPromiseRef s = Some p \<longrightarrow> SessionClose p \<in> set (snd (stopSession s)))
   \<and> stopSession (fst (stopSession s)) = (fst (stopSession s), [SetIsSessionActive False])"
  by (simp add: stopSession_twice) (simp add: stopSession_state stopSession_effects)

lemma stopSession_calls: "e \<in> set (snd (stopSession s)) \<Longrightarrow> is_teardown_call e"
  by (auto simp: stopSession_effects split: option.splits)

text \<open>
  Claim C10. \<open>stopSession\<close> sets the session promise, script processor, media
  stream source and media stream refs to null and the active flag to false, and changes
  nothing else: the two audio contexts stay referenced, the playback cursor keeps its
  value, the set of scheduled sources, the transcript history, the current turn and the
  error message are as before. Its only calls are the close request, the two
  disconnects, the track stops and the flag setter, so no context is closed and no
  scheduled source is stopped.
\<close>

theorem stopSession_frame:
  "fst (stopSession s) =
     s\<lparr>sessionPromiseRef := None, scriptProcessorRef := None, mediaStreamSourceRef := None,
       mediaStreamRef := None, isSessionActive := False\<rparr>
   \<and> inputAudioContextRef (fst (stopSession s)) = inputAudioContextRef s
   \<and> outputAudioContextRef (fst (stopSession s)) = outputAudioContextRef s
   \<and> nextStartTimeRef (fst (stopSession s)) = nextStartTimeRef s
   \<and> audioSourcesRef (fst (stopSession s)) = audioSourcesRef s
   \<and> transcriptions (fst (stopSession s)) = transcriptions s
   \<and> currentTranscription (fst (stopSession s)) = currentTranscription s
   \<and> error (fst (stopSession s)) = error s
   \<and> (\<forall>e \<in> set (snd (stopSession s)). is_teardown_call e)"
  using stopSession_calls [of _ s] by (simp add: stopSession_state)

theorem stopSession_frame_witness:
  "TrackStop 1 \<in> set (snd (stopSession playing_state))
   \<and> is_teardown_call (TrackStop 1)
   \<and> fst (stopSession playing_state) =
       \<lparr>isSessionActive = False, transcriptions = [\<lparr>user = ''hi'', model = ''hello''\<rparr>],
        currentTranscription = \<lparr>user = ''and'', model = ''''\<rparr>,
        error = None, sessionPromiseRef = None, inputAudioContextRef = Some 10,
        outputAudioContextRef = Some 11, mediaStreamRef = None,
        scriptProcessorRef = None, mediaStreamSourceRef = None, nextStartTimeRef = 3,
        audioSourcesRef = [\<lparr>src_context = 11, src_when = 2, src_duration = 1\<rparr>],
        captured_currentTranscription = empty_turn\<rparr>"
proof -
  have "TrackStop 1 \<in> set (snd (stopSession playing_state))"
    by (simp add: stopSession_effects playing_state_def open_state_eq)
  with stopSession_frame [of playing_state] show ?thesis
    by (simp add: playing_state_def open_state_eq)
qed

subsection \<open>onerror\<close>

text \<open>
  Claim C6. On a transport error, from every state (so also while the session is
  opening or open), the component sets the error message and then does exactly what
  \<open>stopSession\<close> does: the same calls (close requested, processor and source
  disconnected, every track stopped, the flag setter last) and the same final refs,
  with the flag false and the message set.
\<close>

theorem onerror_same_teardown:
  "onerror m s =
     (fst (stopSession s)\<lparr>error := Some (''Session error: '' @ m @ ''. Please try again.'')\<rparr>,
      snd (stopSession s))
   \<and> sessionPromiseRef (fst (onerror m s)) = None
   \<and> scriptProcessorRef (fst (onerror m s)) = None
   \<and> mediaStreamSourceRef (fst (onerror m s)) = None
   \<and> mediaStreamRef (fst (onerror m s)) = None
   \<and> \<not> isSessionActive (fst (onerror m s))
   \<and> error (fst (onerror m s)) = Some (''Session error: '' @ m @ ''. Please try again.'')
   \<and> (\<forall>p. sessionPromiseRef s = Some p \<longrightarrow> SessionClose p \<in> set (snd (onerror m s)))
   \<and> (\<forall>n. scriptProcessorRef s = Some n \<longrightarrow>
         ScriptProcessorDisconnect n \<in> set (snd (onerror m s)))
   \<and> (\<forall>n. mediaStreamSourceRef s = Some n \<longrightarrow>
         MediaStreamSourceDisconnect n \<in> set (snd (onerror m s)))
   \<and> (\<forall>ms. mediaStreamRef s = Some ms \<longrightarrow>
         (\<forall>t \<in> set (getTracks ms). TrackStop t \<in> set (snd (onerror m s))))
   \<and> last (snd (onerror m s)) = SetIsSessionActive False"
  by (simp add: onerror_def prod_eq_iff stopSession_state stopSession_effects)

theorem onerror_same_teardown_witness:
  "sessionPromiseRef open_state = Some 7 \<and> scriptProcessorRef open_state = Some 13
   \<and> mediaStreamSourceRef open_state = Some 12
   \<and> mediaStreamRef open_state = Some (MediaStream [1, 2])
   \<and> 1 \<in> set (getTracks (MediaStream [1, 2]))
   \<and> onerror ''socket'' open_state =
       (open_state\<lparr>error := Some ''Session error: socket. Please try again.'',
                   sessionPromiseRef := None, scriptProcessorRef := None,
                   mediaStreamSourceRef := None, mediaStreamRef := None,
                   isSessionActive := False\<rparr>,
        [SessionClose 7, ScriptProcessorDisconnect 13, MediaStreamSourceDisconnect 12,
         TrackStop 1, TrackStop 2, SetIsSessionActive False])"
  using onerror_same_teardown [of "''socket''" open_state]
  by (simp add: open_state_eq stopSession_state stopSession_effects)

subsection \<open>The outbound encoder\<close>

lemma sint_word16_of_int:
  "sint (word_of_int k :: 16 word) = (k + 32768) mod 65536 - 32768"
  by (simp add: sint_sbintrunc' signed_take_bit_eq_take_bit_shift take_bit_eq_mod)

lemma sint_encode_sample:
  "sint (encode_sample (Finite r)) = (js_trunc (r * 32768) + 32768) mod 65536 - 32768"
  by (simp add: encode_sample_def sint_word16_of_int)

lemma js_trunc_in_range:
  assumes "- 1 \<le> r" "r < 1"
  shows "- 32768 \<le> js_trunc (r * 32768) \<and> js_trunc (r * 32768) < 32768"
proof (cases "r < 0")
  case True
  then have "r * 32768 < 0" by simp
  moreover have "- 32768 \<le> r * 32768" using assms by simp
  ultimately show ?thesis
    unfolding js_trunc_def by (simp add: le_ceiling_iff ceiling_less_iff)
next
  case False
  then have "\<not> r * 32768 < 0" by simp
  moreover have "r * 32768 < 32768" using assms by simp
  ultimately show ?thesis
    unfolding js_trunc_def using False by (simp add: le_floor_iff floor_less_iff)
qed

lemma sint_encode_sample_in_range:
  assumes "- 1 \<le> r" "r < 1"
  shows "sint (encode_sample (Finite r)) = js_trunc (r * 32768)"
proof -
  from js_trunc_in_range [OF assms]
  have "0 \<le> js_trunc (r * 32768) + 32768" "js_trunc (r * 32768) + 32768 < 65536"
    by simp_all
  then have "(js_trunc (r * 32768) + 32768) mod 65536 = js_trunc (r * 32768) + 32768"
    by simp
  then show ?thesis by (simp add: sint_encode_sample)
qed

lemma encode_loop_eq:
  "i \<le> l \<Longrightarrow> length inputData = l \<Longrightarrow> length int16 = l \<Longrightarrow>
   encode_loop i l inputData int16 = take i int16 @ map encode_sample (drop i inputData)"
proof (induction i l inputData int16 rule: encode_loop.induct)
  case (1 i l inputData int16)
  show ?case
  proof (cases "i < l")
    case True
    have "encode_loop i l inputData int16 =
            encode_loop (i + 1) l inputData (int16[i := encode_sample (inputData ! i)])"
      using True by (subst encode_loop.simps) simp
    also have "\<dots> = take (i + 1) (int16[i := encode_sample (inputData ! i)]) @
                    map encode_sample (drop (i + 1) inputData)"
      using True "1.prems" by (intro "1.IH") simp_all
    also have "\<dots> = take i int16 @ map encode_sample (drop i inputData)"
      using True "1.prems"
      by (simp add: take_Suc_conv_app_nth Cons_nth_drop_Suc [symmetric])
    finally show ?thesis .
  next
    case False
    with "1.prems" show ?thesis by (subst encode_loop.simps) simp
  qed
qed

lemma pcm_int16_map: "pcm_int16 inputData = map encode_sample inputData"
  by (simp add: pcm_int16_def encode_loop_eq Let_def)

lemma onaudioprocess_state: "fst (onaudioprocess enc inputData s) = s"
  by (simp add: onaudioprocess_def split: option.splits)

text \<open>
  Claim C9. The encoder maps a finite sample \<open>r\<close> to the 16-bit integer obtained by
  truncating \<open>r * 32768\<close> towards zero and reducing it modulo \<open>2^16\<close> into the
  signed range, without clamping: for \<open>-1 \<le> r < 1\<close> the result is the truncated
  product itself, \<open>-1.0\<close> gives \<open>-32768\<close>, and \<open>1.0\<close>, whose product is
  \<open>32768\<close>, wraps to \<open>-32768\<close>. Values that are not finite give 0, so there is no
  error case. The loop encodes every sample of the buffer by the same function, and the
  callback leaves the component state as it was.
\<close>

theorem encoder_wraps_no_clamp:
  "sint (encode_sample (Finite r)) = (js_trunc (r * 32768) + 32768) mod 65536 - 32768
   \<and> (- 1 \<le> r \<and> r < 1 \<longrightarrow> sint (encode_sample (Finite r)) = js_trunc (r * 32768))
   \<and> sint (encode_sample (Finite (- 1))) = - 32768
   \<and> js_trunc (1 * 32768) = 32768
   \<and> sint (encode_sample (Finite 1)) = - 32768
   \<and> encode_sample NaN = 0 \<and> encode_sample PosInfinity = 0 \<and> encode_sample NegInfinity = 0
   \<and> pcm_int16 inputData = map encode_sample inputData
   \<and> fst (onaudioprocess enc inputData s) = s"
  using sint_encode_sample_in_range [of r]
  by (simp add: sint_encode_sample pcm_int16_map onaudioprocess_state)
    (simp add: js_trunc_def encode_sample_def)

theorem encoder_wraps_no_clamp_witness:
  "- 1 \<le> (- 1 / 2 :: real) \<and> (- 1 / 2 :: real) < 1
   \<and> sint (encode_sample (Finite (- 1 / 2))) = - 16384
   \<and> sint (encode_sample (Finite (3 / 2))) = - 16384
   \<and> pcm_int16 [Finite (- 1), Finite 1, NaN] = [32768, 32768, 0]"
proof -
  have t: "js_trunc (- 1 / 2 * 32768) = - 16384" "js_trunc (3 / 2 * 32768) = 49152"
    by (simp_all add: js_trunc_def)
  have "pcm_int16 [Finite (- 1), Finite 1, NaN] = [32768, 32768, 0]"
    using encoder_wraps_no_clamp [of 0 "[Finite (- 1), Finite 1, NaN]"]
    by (simp add: encode_sample_def js_trunc_def)
  with encoder_wraps_no_clamp [of "- 1 / 2"] encoder_wraps_no_clamp [of "3 / 2"] t
  show ?thesis by simp
qed

subsection \<open>Runs that end in a defect\<close>

lemmas message_defs = no_content_def user_text_message_def model_text_message_def
  turn_complete_message_def audio_message_def

lemmas onmessage_defs = onmessage_def onmessage_transcript_def onmessage_align_def
  onmessage_schedule_def base64Audio_def js_concat_def

lemmas start_defs = startSession_def startSession_begin_def startSession_resume_def
  start_catch_def

lemma onmessage_transcript_turnComplete:
  "transcriptions (onmessage_transcript msg s) =
     (if Option.bind (serverContent msg) turnComplete = Some True
      then transcriptions s @ [captured_currentTranscription s] else transcriptions s)"
  by (simp add: onmessage_transcript_def Let_def split: option.splits)

text \<open>
  Claim C2 (the aggregator appends, on turn-complete, the concatenation of the fragments
  of the turn). The code pushes the constant \<open>currentTranscription\<close> its callback
  closed over when the session was started, not the accumulated turn. In the first
  session of a component, after the fragments \<open>hi\<close> (user) and \<open>yo\<close> (model) the
  current turn holds both, and the turn-complete event appends a turn with two empty
  strings.
\<close>

theorem turn_complete_pushes_stale_turn:
  "currentTranscription
     (fst (run one_second no_encode
        [EvStart (MicGranted (MediaStream [1, 2])) (ConnectReturns 7), EvOpen 10 11 12 13,
         EvMessage 0 (user_text_message ''hi''), EvMessage 0 (model_text_message ''yo'')]
        initial_state)) = \<lparr>user = ''hi'', model = ''yo''\<rparr>
   \<and> transcriptions
     (fst (run one_second no_encode
        [EvStart (MicGranted (MediaStream [1, 2])) (ConnectReturns 7), EvOpen 10 11 12 13,
         EvMessage 0 (user_text_message ''hi''), EvMessage 0 (model_text_message ''yo''),
         EvMessage 0 turn_complete_message]
        initial_state)) = [\<lparr>user = '''', model = ''''\<rparr>]"
  by (simp add: initial_state_def start_defs onopen_def onmessage_defs message_defs
      empty_turn_def)

text \<open>
  Claim C5 (a failure of either the microphone or the session path during start tears
  down both). When the microphone has been granted and creating the session throws, the
  \<open>catch\<close> block sets the message and the flag only: the stream stays in
  \<open>mediaStreamRef\<close> and no track is stopped.
\<close>

theorem start_catch_keeps_stream:
  "run one_second no_encode
     [EvStart (MicGranted (MediaStream [1, 2]))
        (ConnectThrows (JsError (Some ''An API Key must be set when running in a browser'')))]
     initial_state =
   (initial_state
      \<lparr>error := Some ''Could not access microphone or start session. Please check permissions.'',
       mediaStreamRef := Some (MediaStream [1, 2])\<rparr>,
    [SetIsSessionActive True, SetIsSessionActive False])"
  by (simp add: initial_state_def start_defs)

text \<open>
  Claim C7 (a send after the session is closing, errored or closed is a no-op). After
  a close event alone the session promise is still in \<open>sessionPromiseRef\<close>, and the
  next audio callback calls \<open>sendRealtimeInput\<close> on that session. After
  \<open>stopSession\<close> or \<open>onerror\<close> the ref is null and the callback does nothing
  (lemmas \<open>onaudioprocess_after_stop\<close> and \<open>onaudioprocess_after_error\<close> below).
\<close>

theorem send_after_close_reaches_session:
  "run one_second no_encode [EvClose, EvAudioProcess [Finite 0]] open_state =
     (open_state\<lparr>isSessionActive := False\<rparr>,
      [SetIsSessionActive False,
       SendRealtimeInput 7 \<lparr>blob_data = [], mimeType = ''audio/pcm;rate=16000''\<rparr>])"
  by (simp add: open_state_eq onclose_def onaudioprocess_def no_encode_def)

lemma onaudioprocess_without_session:
  "sessionPromiseRef s = None \<Longrightarrow> onaudioprocess enc inputData s = (s, [])"
  by (simp add: onaudioprocess_def)

lemma onaudioprocess_after_stop:
  "onaudioprocess enc inputData (fst (stopSession s)) = (fst (stopSession s), [])"
  by (simp add: onaudioprocess_without_session stopSession_state)

lemma onaudioprocess_after_error:
  "onaudioprocess enc inputData (fst (onerror m s)) = (fst (onerror m s), [])"
  by (simp add: onaudioprocess_without_session onerror_def stopSession_state)

lemma mic_denied_from_idle:
  "sessionPromiseRef s = None \<Longrightarrow> mediaStreamRef s = None \<Longrightarrow>
   (let s' = fst (startSession (MicDenied err) conn s)
    in \<not> isSessionActive s' \<and> sessionPromiseRef s' = None \<and> mediaStreamRef s' = None
       \<and> error s' \<noteq> None)"
  by (simp add: start_defs Let_def)

subsection \<open>The inbound scheduler\<close>

lemmas double_add_eval = double_add_def round_double_def round_mantissa.simps
  round_ties_even_def

lemma double_add_small [simp]:
  "double_add 0 1 = 1" "double_add 1 1 = 2" "double_add 5 1 = 6"
  by (simp_all add: double_add_eval)

lemma double_add_tenths:
  "double_add 0 (3602879701896397 / 36028797018963968) = 3602879701896397 / 36028797018963968"
  "double_add (3602879701896397 / 36028797018963968) (3152519739159347 / 4503599627370496)
     = 7205759403792793 / 9007199254740992"
  "double_add (7205759403792793 / 9007199254740992) (3602879701896397 / 36028797018963968)
     = 8106479329266892 / 9007199254740992"
  by (simp_all add: double_add_eval)

text \<open>The sum \<open>0.1 + 0.2\<close> of doubles is a tie, rounded to the even mantissa.\<close>

lemma double_add_tie:
  "double_add (3602879701896397 / 36028797018963968) (3602879701896397 / 18014398509481984)
     = 5404319552844596 / 18014398509481984"
  by (simp add: double_add_eval)

lemma scheduled_append: "scheduled (xs @ ys) = scheduled xs @ scheduled ys"
  by (induction xs rule: scheduled.induct) simp_all

lemma scheduled_track_stops: "scheduled (map TrackStop ts) = []"
  by (induction ts) simp_all

lemma scheduled_stopSession: "scheduled (snd (stopSession s)) = []"
  by (simp add: stopSession_effects scheduled_append scheduled_track_stops split: option.splits)

lemma run_Cons_fst:
  "fst (run dec enc (ev # evs) s) = fst (run dec enc evs (fst (handle dec enc ev s)))"
  by (simp add: split_beta)

lemma run_Cons_snd:
  "snd (run dec enc (ev # evs) s) =
     snd (handle dec enc ev s) @ snd (run dec enc evs (fst (handle dec enc ev s)))"
  by (simp add: split_beta)

lemma onmessage_transcript_cursor [simp]:
  "nextStartTimeRef (onmessage_transcript msg s) = nextStartTimeRef s"
  "outputAudioContextRef (onmessage_transcript msg s) = outputAudioContextRef s"
  by (simp_all add: onmessage_transcript_def Let_def split: option.splits)

lemma audio_guard_transcript [simp]:
  "audio_guard msg (onmessage_transcript msg' s) = audio_guard msg s"
  by (simp add: audio_guard_def split: sum.splits option.splits)

lemma onmessage_align_cases:
  "(\<not> audio_guard msg s \<and> snd (snd (onmessage_align now msg s)) = None
      \<and> fst (onmessage_align now msg s) = s
      \<and> scheduled (fst (snd (onmessage_align now msg s))) = [])
   \<or> (\<exists>c b. audio_guard msg s \<and> base64Audio msg = Inr (Some b)
        \<and> onmessage_align now msg s =
            (s\<lparr>nextStartTimeRef := max (nextStartTimeRef s) now\<rparr>, [], Some (c, b)))"
  by (simp add: onmessage_align_def audio_guard_def split: sum.splits option.splits)

text \<open>What one message does to the cursor and to the schedule.\<close>

lemma onmessage_cases:
  "(\<not> audio_guard msg s \<and> scheduled (snd (onmessage dec now msg s)) = []
      \<and> nextStartTimeRef (fst (onmessage dec now msg s)) = nextStartTimeRef s)
   \<or> (\<exists>b. audio_guard msg s \<and> base64Audio msg = Inr (Some b) \<and> dec b = None
        \<and> scheduled (snd (onmessage dec now msg s)) = []
        \<and> nextStartTimeRef (fst (onmessage dec now msg s)) = max (nextStartTimeRef s) now)
   \<or> (\<exists>b d. audio_guard msg s \<and> base64Audio msg = Inr (Some b) \<and> dec b = Some d
        \<and> scheduled (snd (onmessage dec now msg s)) = [(max (nextStartTimeRef s) now, d)]
        \<and> nextStartTimeRef (fst (onmessage dec now msg s)) =
            double_add (max (nextStartTimeRef s) now) d)"
  using onmessage_align_cases [of msg "onmessage_transcript msg s" now]
  by (auto simp: onmessage_def onmessage_schedule_def Let_def split_beta scheduled_append
      split: option.splits)

lemma handle_cases:
  "(scheduled (snd (handle dec enc ev s)) = []
      \<and> nextStartTimeRef (fst (handle dec enc ev s)) = nextStartTimeRef s
      \<and> (\<forall>now msg. ev = EvMessage now msg \<longrightarrow> \<not> audio_guard msg s))
   \<or> (\<exists>now msg. ev = EvMessage now msg \<and> audio_guard msg s
        \<and> scheduled (snd (handle dec enc ev s)) = []
        \<and> nextStartTimeRef (fst (handle dec enc ev s)) = max (nextStartTimeRef s) now)
   \<or> (\<exists>now msg d. ev = EvMessage now msg \<and> audio_guard msg s
        \<and> scheduled (snd (handle dec enc ev s)) = [(max (nextStartTimeRef s) now, d)]
        \<and> nextStartTimeRef (fst (handle dec enc ev s)) =
            double_add (max (nextStartTimeRef s) now) d)"
proof (cases ev)
  case (EvMessage now msg)
  with onmessage_cases [of msg s dec now] show ?thesis by auto
next
  case (EvStart mic conn)
  then show ?thesis
    by (simp add: startSession_def startSession_begin_def startSession_resume_def
        start_catch_def Let_def split: mic_outcome.splits connect_outcome.splits)
next
  case EvStartBegin
  then show ?thesis by (simp add: startSession_begin_def)
next
  case (EvStartResume mic conn)
  then show ?thesis
    by (simp add: startSession_resume_def start_catch_def Let_def
        split: mic_outcome.splits connect_outcome.splits)
next
  case EvStop
  then show ?thesis by (simp add: scheduled_stopSession stopSession_state)
next
  case (EvOpen ictx octx source proc)
  then show ?thesis by (simp add: onopen_def split: option.splits)
next
  case (EvError m)
  then show ?thesis by (simp add: onerror_def scheduled_stopSession stopSession_state)
next
  case EvClose
  then show ?thesis by (simp add: onclose_def)
next
  case (EvAudioProcess inputData)
  then show ?thesis by (simp add: onaudioprocess_def split: option.splits)
next
  case (EvEnded source)
  then show ?thesis by (simp add: source_ended_def)
qed

lemma no_overlap_Cons:
  "no_overlap (x # r) =
     ((r \<noteq> [] \<longrightarrow> double_add (fst x) (snd x) \<le> fst (hd r)) \<and> no_overlap r)"
  by (cases r) simp_all

lemma no_overlap_nth:
  "no_overlap sch \<Longrightarrow> Suc i < length sch \<Longrightarrow>
   double_add (fst (sch ! i)) (snd (sch ! i)) \<le> fst (sch ! Suc i)"
proof (induction sch arbitrary: i rule: no_overlap.induct)
  case (3 x y r)
  then show ?case by (cases i) simp_all
qed simp_all

lemma first_start_after_cursor:
  "scheduled (snd (run dec enc evs s)) \<noteq> [] \<Longrightarrow>
   nextStartTimeRef s \<le> fst (hd (scheduled (snd (run dec enc evs s))))"
proof (induction evs arbitrary: s)
  case Nil
  then show ?case by simp
next
  case (Cons ev evs)
  let ?s1 = "fst (handle dec enc ev s)"
  from handle_cases [of dec enc ev s] show ?case
  proof (elim disjE conjE exE)
    assume e: "scheduled (snd (handle dec enc ev s)) = []"
      and c: "nextStartTimeRef ?s1 = nextStartTimeRef s"
    from Cons.prems e have "scheduled (snd (run dec enc evs ?s1)) \<noteq> []"
      by (simp del: run.simps add: run_Cons_snd scheduled_append)
    from Cons.IH [OF this] e c show ?thesis
      by (simp del: run.simps add: run_Cons_snd scheduled_append)
  next
    fix now msg
    assume e: "scheduled (snd (handle dec enc ev s)) = []"
      and c: "nextStartTimeRef ?s1 = max (nextStartTimeRef s) now"
    from Cons.prems e have "scheduled (snd (run dec enc evs ?s1)) \<noteq> []"
      by (simp del: run.simps add: run_Cons_snd scheduled_append)
    from Cons.IH [OF this] e c show ?thesis
      by (simp del: run.simps add: run_Cons_snd scheduled_append)
  next
    fix now msg d
    assume "scheduled (snd (handle dec enc ev s)) = [(max (nextStartTimeRef s) now, d)]"
    then show ?thesis by (simp del: run.simps add: run_Cons_snd scheduled_append)
  qed
qed

lemma run_no_overlap: "no_overlap (scheduled (snd (run dec enc evs s)))"
proof (induction evs arbitrary: s)
  case Nil
  then show ?case by simp
next
  case (Cons ev evs)
  let ?s1 = "fst (handle dec enc ev s)"
  let ?rest = "scheduled (snd (run dec enc evs ?s1))"
  from handle_cases [of dec enc ev s] show ?case
  proof (elim disjE conjE exE)
    fix now msg d
    assume e: "scheduled (snd (handle dec enc ev s)) = [(max (nextStartTimeRef s) now, d)]"
      and c: "nextStartTimeRef ?s1 = double_add (max (nextStartTimeRef s) now) d"
    have "?rest \<noteq> [] \<longrightarrow> double_add (max (nextStartTimeRef s) now) d \<le> fst (hd ?rest)"
      using first_start_after_cursor [of dec enc evs ?s1] c by simp
    with Cons.IH [of ?s1] e show ?thesis
      by (simp del: run.simps add: run_Cons_snd scheduled_append no_overlap_Cons)
  qed (use Cons.IH [of ?s1] in \<open>simp_all del: run.simps add: run_Cons_snd scheduled_append\<close>)
qed

lemma on_time_Cons:
  "on_time dec enc (ev # evs) s =
     ((\<forall>now msg. ev = EvMessage now msg \<longrightarrow> \<not> arrives_late now msg s)
      \<and> on_time dec enc evs (fst (handle dec enc ev s)))"
  by (cases ev) simp_all

text \<open>Without a late chunk the cursor is the initial cursor plus the durations, added in order.\<close>

lemma cursor_on_time_run:
  "on_time dec enc evs s \<Longrightarrow>
   nextStartTimeRef (fst (run dec enc evs s)) =
     foldl double_add (nextStartTimeRef s) (map snd (scheduled (snd (run dec enc evs s))))"
proof (induction evs arbitrary: s)
  case Nil
  then show ?case by simp
next
  case (Cons ev evs)
  let ?s1 = "fst (handle dec enc ev s)"
  from Cons.prems have late: "\<forall>now msg. ev = EvMessage now msg \<longrightarrow> \<not> arrives_late now msg s"
    and rest: "on_time dec enc evs ?s1"
    unfolding on_time_Cons by blast+
  have ih: "nextStartTimeRef (fst (run dec enc evs ?s1)) =
      foldl double_add (nextStartTimeRef ?s1) (map snd (scheduled (snd (run dec enc evs ?s1))))"
    using rest by (rule Cons.IH)
  have aligned: "\<forall>now msg. ev = EvMessage now msg \<and> audio_guard msg s \<longrightarrow>
      max (nextStartTimeRef s) now = nextStartTimeRef s"
    using late by (auto simp: arrives_late_def max_def)
  show ?case
    using handle_cases [of dec enc ev s] ih aligned
    by (auto simp del: run.simps handle.simps simp: run_Cons_snd run_Cons_fst scheduled_append)
qed


lemma base64Audio_audio_message: "base64Audio (audio_message b) = Inr (Some b)"
  by (simp add: base64Audio_def audio_message_def no_content_def)

lemma late_chunk_run_eq:
  "late_chunk_run =
     (open_state\<lparr>nextStartTimeRef := 6,
        audioSourcesRef := [\<lparr>src_context = 11, src_when = 0, src_duration = 1\<rparr>,
                            \<lparr>src_context = 11, src_when = 5, src_duration = 1\<rparr>]\<rparr>,
      [BufferSourceStart 11 0 1, BufferSourceStart 11 5 1])"
  by (simp add: late_chunk_run_def open_state_eq onmessage_defs message_defs one_second_def)

lemma rounded_run_schedule:
  "scheduled (snd rounded_run) =
     [(0, 3602879701896397 / 36028797018963968),
      (3602879701896397 / 36028797018963968, 3152519739159347 / 4503599627370496),
      (7205759403792793 / 9007199254740992, 3602879701896397 / 36028797018963968)]"
  by (simp add: rounded_run_def open_state_eq onmessage_defs message_defs tenths_def
      double_add_tenths Let_def)

text \<open>
  Claim C1, as stated. (1) The scheduled span equals the maximum of the clock at the
  first chunk and the sum of the durations: two chunks of one second arriving at clock 0
  and clock 5 start at 0 and at 5, the second four seconds after the first has ended;
  the cursor ends at 6, and neither the cursor nor the distance from the first start to
  the last end is \<open>max 0 (1 + 1) = 2\<close>. (2) Each start is at least the previous start
  plus duration: for chunks of 2400, 16800 and 2400 samples that arrive together, the
  cursor after the second is the double sum of its start and duration, which rounding
  puts below their exact sum, and the third chunk starts there.
\<close>

theorem scheduled_span_counterexample:
  "scheduled (snd late_chunk_run) = [(0, 1), (5, 1)]
   \<and> nextStartTimeRef (fst late_chunk_run)
       \<noteq> max 0 (sum_list (map snd (scheduled (snd late_chunk_run))))
   \<and> fst (last (scheduled (snd late_chunk_run))) + snd (last (scheduled (snd late_chunk_run)))
         - fst (hd (scheduled (snd late_chunk_run)))
       \<noteq> max 0 (sum_list (map snd (scheduled (snd late_chunk_run))))
   \<and> fst (scheduled (snd late_chunk_run) ! 0) + snd (scheduled (snd late_chunk_run) ! 0)
       < fst (scheduled (snd late_chunk_run) ! 1)
   \<and> fst (scheduled (snd rounded_run) ! 2)
       < fst (scheduled (snd rounded_run) ! 1) + snd (scheduled (snd rounded_run) ! 1)"
  by (simp add: late_chunk_run_eq rounded_run_schedule)

lemma first_chunk_then_on_time:
  assumes g: "audio_guard m1 s"
    and rest: "on_time dec enc rest (fst (handle dec enc (EvMessage t1 m1) s))"
  shows "nextStartTimeRef (fst (run dec enc (EvMessage t1 m1 # rest) s)) =
           foldl double_add (max (nextStartTimeRef s) t1)
             (map snd (scheduled (snd (run dec enc (EvMessage t1 m1 # rest) s))))"
proof -
  let ?s1 = "fst (handle dec enc (EvMessage t1 m1) s)"
  have c: "nextStartTimeRef (fst (run dec enc rest ?s1)) =
      foldl double_add (nextStartTimeRef ?s1) (map snd (scheduled (snd (run dec enc rest ?s1))))"
    using rest by (rule cursor_on_time_run)
  show ?thesis
    using handle_cases [of dec enc "EvMessage t1 m1" s] g c
    by (auto simp del: run.simps handle.simps simp: run_Cons_snd run_Cons_fst scheduled_append)
qed

lemma onmessage_chunk:
  assumes "audio_guard msg s" "base64Audio msg = Inr (Some b)" "dec b = Some d"
  shows "scheduled (snd (onmessage dec now msg s)) = [(max (nextStartTimeRef s) now, d)]
    \<and> nextStartTimeRef (fst (onmessage dec now msg s)) =
        double_add (max (nextStartTimeRef s) now) d"
  using onmessage_cases [of msg s dec now] assms by auto

text \<open>
  Claim C1, amended. Times are doubles and the end of a scheduled source is the double
  sum of its start and its duration, which is the value the cursor takes. For every run
  of the component, each source starts no earlier than the previous one ends. A chunk
  that passes the guard and decodes is started at the maximum of the cursor and the
  clock. When a run begins with a chunk at clock \<open>t1\<close> and no later chunk arrives at a
  clock beyond the cursor, the cursor after the run is the maximum of the initial
  cursor and \<open>t1\<close> plus the durations of the scheduled sources, added in order (no
  gap); messages without audio are not restricted.
\<close>

theorem scheduler_no_overlap:
  "(\<forall>i. Suc i < length (scheduled (snd (run dec enc evs s))) \<longrightarrow>
       double_add (fst (scheduled (snd (run dec enc evs s)) ! i))
                  (snd (scheduled (snd (run dec enc evs s)) ! i))
       \<le> fst (scheduled (snd (run dec enc evs s)) ! Suc i))
   \<and> (audio_guard msg s \<and> base64Audio msg = Inr (Some b) \<and> dec b = Some d \<longrightarrow>
       scheduled (snd (onmessage dec now msg s)) = [(max (nextStartTimeRef s) now, d)]
       \<and> nextStartTimeRef (fst (onmessage dec now msg s)) =
           double_add (max (nextStartTimeRef s) now) d)
   \<and> (evs = EvMessage t1 m1 # rest \<and> audio_guard m1 s
        \<and> on_time dec enc rest (fst (handle dec enc (EvMessage t1 m1) s))
       \<longrightarrow> nextStartTimeRef (fst (run dec enc evs s)) =
             foldl double_add (max (nextStartTimeRef s) t1)
               (map snd (scheduled (snd (run dec enc evs s)))))"
proof (intro conjI allI impI)
  fix i
  assume "Suc i < length (scheduled (snd (run dec enc evs s)))"
  with run_no_overlap [of dec enc evs s]
  show "double_add (fst (scheduled (snd (run dec enc evs s)) ! i))
                  (snd (scheduled (snd (run dec enc evs s)) ! i))
       \<le> fst (scheduled (snd (run dec enc evs s)) ! Suc i)"
    by (rule no_overlap_nth)
next
  assume h: "audio_guard msg s \<and> base64Audio msg = Inr (Some b) \<and> dec b = Some d"
  with onmessage_chunk [of msg s b dec d now]
  show "scheduled (snd (onmessage dec now msg s)) = [(max (nextStartTimeRef s) now, d)]"
    by blast
  from h onmessage_chunk [of msg s b dec d now]
  show "nextStartTimeRef (fst (onmessage dec now msg s)) =
           double_add (max (nextStartTimeRef s) now) d"
    by blast
next
  assume h: "evs = EvMessage t1 m1 # rest \<and> audio_guard m1 s
        \<and> on_time dec enc rest (fst (handle dec enc (EvMessage t1 m1) s))"
  then have e: "evs = EvMessage t1 m1 # rest" by simp
  from h first_chunk_then_on_time [of m1 s dec enc rest t1]
  show "nextStartTimeRef (fst (run dec enc evs s)) =
             foldl double_add (max (nextStartTimeRef s) t1)
               (map snd (scheduled (snd (run dec enc evs s))))"
    unfolding e by blast
qed

theorem scheduler_no_overlap_witness:
  "audio_guard (audio_message ''a'') open_state
   \<and> base64Audio (audio_message ''a'') = Inr (Some ''a'') \<and> one_second ''a'' = Some 1
   \<and> on_time one_second no_encode
        [EvMessage (1 / 4) (user_text_message ''hi''), EvMessage (1 / 2) (audio_message ''a'')]
        (fst (handle one_second no_encode (EvMessage 0 (audio_message ''a'')) open_state))
   \<and> scheduled (snd (run one_second no_encode
        [EvMessage 0 (audio_message ''a''), EvMessage (1 / 4) (user_text_message ''hi''),
         EvMessage (1 / 2) (audio_message ''a'')] open_state))
       = [(0, 1), (1, 1)]
   \<and> Suc 0 < length [(0, 1), (1, 1) :: real \<times> real]
   \<and> double_add 0 1 \<le> 1
   \<and> nextStartTimeRef (fst (run one_second no_encode
        [EvMessage 0 (audio_message ''a''), EvMessage (1 / 4) (user_text_message ''hi''),
         EvMessage (1 / 2) (audio_message ''a'')] open_state))
       = 2"
proof -
  let ?rest = "[EvMessage (1 / 4) (user_text_message ''hi''),
                EvMessage (1 / 2) (audio_message ''a'')]"
  let ?evs = "EvMessage 0 (audio_message ''a'') # ?rest"
  have g: "audio_guard (audio_message ''a'') open_state"
    by (simp add: audio_guard_def base64Audio_audio_message open_state_eq)
  have b: "base64Audio (audio_message ''a'') = Inr (Some ''a'')"
    by (rule base64Audio_audio_message)
  have d: "one_second ''a'' = Some 1" by (simp add: one_second_def)
  have o: "on_time one_second no_encode ?rest
        (fst (handle one_second no_encode (EvMessage 0 (audio_message ''a'')) open_state))"
    by (simp add: arrives_late_def audio_guard_def open_state_eq onmessage_defs message_defs
        one_second_def)
  have sch: "scheduled (snd (run one_second no_encode ?evs open_state)) = [(0, 1), (1, 1)]"
    by (simp add: open_state_eq onmessage_defs message_defs one_second_def)
  have c0: "max (nextStartTimeRef open_state) 0 = 0" by (simp add: open_state_eq)
  note t = scheduler_no_overlap [of one_second no_encode ?evs open_state
      "audio_message ''a''" "''a''" 1 0 0 "audio_message ''a''" ?rest]
  from t g o
  have "nextStartTimeRef (fst (run one_second no_encode ?evs open_state)) =
      foldl double_add (max (nextStartTimeRef open_state) 0)
        (map snd (scheduled (snd (run one_second no_encode ?evs open_state))))"
    by blast
  then have c: "nextStartTimeRef (fst (run one_second no_encode ?evs open_state)) = 2"
    unfolding sch c0 by simp
  from t sch have "double_add 0 1 \<le> (1::real)" by simp
  with g b d o sch c show ?thesis by simp
qed

subsection \<open>The playback cursor across sessions\<close>

text \<open>
  Claim C3 (the cursor is 0 at every session start). \<open>startSession\<close> resets the
  transcript state and the error but not \<open>nextStartTimeRef\<close>. After a first session
  that scheduled one second of audio and was stopped, the cursor at the second start is
  1; \<open>onopen\<close> then creates a new output context, whose clock starts at 0, and the first
  chunk of the second session, arriving at clock 0, is started on that context at 1.
\<close>

theorem second_session_starts_at_old_cursor:
  "nextStartTimeRef
     (fst (run one_second no_encode
        (first_session @ [EvStart (MicGranted (MediaStream [3])) (ConnectReturns 8)])
        initial_state)) = 1
   \<and> snd (run one_second no_encode (first_session @ second_session) initial_state) =
       [SetIsSessionActive True, NodeConnect 12 13, NodeConnect 13 10,
        BufferSourceStart 11 0 1,
        SessionClose 7, ScriptProcessorDisconnect 13, MediaStreamSourceDisconnect 12,
        TrackStop 1, TrackStop 2, SetIsSessionActive False,
        SetIsSessionActive True, NodeConnect 22 23, NodeConnect 23 20,
        BufferSourceStart 21 1 1]"
  by (simp add: first_session_def second_session_def initial_state_def start_defs onopen_def
      onmessage_defs message_defs one_second_def stopSession_def stop_steps)

text \<open>No callback other than \<open>onmessage\<close> assigns the cursor.\<close>

lemma cursor_assigned_by_onmessage_only:
  "(\<forall>now msg. ev \<noteq> EvMessage now msg) \<Longrightarrow>
   nextStartTimeRef (fst (handle dec enc ev s)) = nextStartTimeRef s"
  using handle_cases [of dec enc ev s] by auto

subsection \<open>Stop and a start that has not completed\<close>

text \<open>
  Claim C4 (after stop, from every prior state, also one where start has not completed,
  there is no live hardware stream and no live session). \<open>stopSession\<close> does not
  cancel a start that is waiting for \<open>getUserMedia\<close>: when the permission is granted
  afterwards the start goes on, the stream and the session promise are stored, the
  session opens and audio is sent, all with the active flag false and without any
  track stopped or close requested.
\<close>

theorem stop_before_start_completes_leaves_stream_and_session:
  "early_stop_run =
     (initial_state
        \<lparr>sessionPromiseRef := Some 7, inputAudioContextRef := Some 10,
         outputAudioContextRef := Some 11, mediaStreamRef := Some (MediaStream [1, 2]),
         scriptProcessorRef := Some 13, mediaStreamSourceRef := Some 12\<rparr>,
      [SetIsSessionActive True, SetIsSessionActive False,
       NodeConnect 12 13, NodeConnect 13 10,
       SendRealtimeInput 7 \<lparr>blob_data = [], mimeType = ''audio/pcm;rate=16000''\<rparr>])"
  by (simp add: early_stop_run_def initial_state_def startSession_begin_def
      startSession_resume_def stopSession_def stop_steps onopen_def onaudioprocess_def
      no_encode_def)

text \<open>
  A stream whose ref is overwritten is not stopped either: after a close event, a second
  start and a stop, the refs are null but the tracks of the first stream were never
  stopped.
\<close>

lemma stop_misses_overwritten_stream:
  "snd close_restart_stop_run =
     [SetIsSessionActive False, SetIsSessionActive True,
      SessionClose 8, ScriptProcessorDisconnect 13, MediaStreamSourceDisconnect 12,
      TrackStop 3, SetIsSessionActive False]
   \<and> mediaStreamRef (fst close_restart_stop_run) = None
   \<and> sessionPromiseRef (fst close_restart_stop_run) = None"
  by (simp add: close_restart_stop_run_def open_state_eq onclose_def start_defs
      stopSession_def stop_steps)

end
